theory Spec2Isabelle
  imports Main "HOL-Library.Word" "HOL-Library.Multiset"
begin

section \<open>The camera class of nlc-receiver (camera.cpp)\<close>

text \<open>
  \<open>Camera\<close> wraps one libdc1394 camera handle. Every method is a sequence of calls
  into the native library, a test of the returned \<open>dc1394error_t\<close>, and either a
  \<open>throw\<close> or an update of the two flags \<open>isDeviceOpened\<close> and \<open>isTransmitting\<close>.

  The native library is not part of the repository. It is modelled as an oracle: the
  \<open>driver\<close> decides, from the history of calls made so far, whether the next call
  succeeds and which DMA buffer a dequeue hands out. The methods are translated as
  functions from the object state to a result and the new object state; a \<open>throw\<close>
  is the result \<open>Inl\<close>, and the state that comes with it is the state of the object at
  the moment the exception leaves the method (C++ does not roll anything back).
\<close>

subsection \<open>Native calls and their history\<close>

type_synonym frame = nat

text \<open>What \<open>dc1394frameToMat\<close> returns: the image converted from one DMA buffer.\<close>

datatype Mat = Mat frame

text \<open>
  The calls that leave the class: the libdc1394 functions used in camera.cpp (without their
  \<open>dc1394_\<close> prefix and without the handle argument, which is always \<open>camHandle\<close> or
  \<open>objHandle\<close>) and the viewer's \<open>showImage\<close>. \<open>capture_dequeue f\<close> is a dequeue that
  stored buffer \<open>f\<close> in its out-parameter.
\<close>

datatype call =
    camera_new "64 word"
  | camera_free
  | free
  | video_set_transmission bool
  | capture_setup nat
  | capture_stop
  | capture_dequeue frame
  | capture_enqueue frame
  | video_set_iso_speed int
  | format7_set_roi int int int int
  | video_set_framerate int
  | showImage Mat

text \<open>An event is a call with its outcome (\<open>True\<close> for \<open>DC1394_SUCCESS\<close> or a non-null pointer).\<close>

type_synonym event = "call \<times> bool"

record driver =
  succeeds :: "event list \<Rightarrow> call \<Rightarrow> bool"
  buffer :: "event list \<Rightarrow> frame"

text \<open>The exceptions thrown in camera.cpp, with their messages.\<close>

datatype exn = runtime_error string | out_of_range string

text \<open>
  The members of \<open>Camera\<close> that the methods read or write. \<open>err\<close> is left out: it is
  written by every native call and read only in the test that follows at once.
  \<open>trace\<close> is not a member: it records the calls the object has made, in order.
\<close>

record camera =
  isDeviceOpened :: bool
  isTransmitting :: bool
  isCapturingVideo :: bool
  camHandle :: "64 word option"
  frameHandle :: frame
  trace :: "event list"

type_synonym 'a action = "camera \<Rightarrow> (exn + 'a) \<times> camera"

definition ret :: "'a \<Rightarrow> 'a action" where
  "ret x s = (Inr x, s)"

definition throw :: "exn \<Rightarrow> 'a action" where
  "throw e s = (Inl e, s)"

text \<open>Sequencing of statements: an exception in the first skips the second.\<close>

definition andThen :: "'a action \<Rightarrow> ('a \<Rightarrow> 'b action) \<Rightarrow> 'b action" where
  "andThen m f s = (case m s of (Inl e, s') \<Rightarrow> (Inl e, s') | (Inr x, s') \<Rightarrow> f x s')"

text \<open>A native call that returns a status: the driver decides, the call is recorded.\<close>

definition native :: "driver \<Rightarrow> call \<Rightarrow> bool action" where
  "native drv c s =
     (let ok = succeeds drv (trace s) c
      in (Inr ok, s\<lparr>trace := trace s @ [(c, ok)]\<rparr>))"

text \<open>A call without a status (\<open>dc1394_camera_free\<close>, \<open>dc1394_free\<close>, \<open>showImage\<close>).\<close>

definition void :: "call \<Rightarrow> unit action" where
  "void c s = (Inr (), s\<lparr>trace := trace s @ [(c, True)]\<rparr>)"

subsection \<open>What a history says about the native resources\<close>

text \<open>Number of \<open>dc1394_camera_free\<close> calls made.\<close>

definition frees :: "event list \<Rightarrow> nat" where
  "frees tr = length (filter (\<lambda>e. fst e = camera_free) tr)"

text \<open>
  Whether the native camera object exists: created by a successful
  \<open>dc1394_camera_new\<close>, gone after \<open>dc1394_camera_free\<close>.
\<close>

fun live_step :: "bool \<Rightarrow> event \<Rightarrow> bool" where
  "live_step b (camera_new g, ok) = (b \<or> ok)"
| "live_step b (camera_free, ok) = False"
| "live_step b e = b"

definition live :: "event list \<Rightarrow> bool" where
  "live tr = foldl live_step False tr"

text \<open>
  The DMA buffers handed out by successful dequeues and not yet given back by a
  successful enqueue.
\<close>

fun outstanding_step :: "frame multiset \<Rightarrow> event \<Rightarrow> frame multiset" where
  "outstanding_step M (capture_dequeue f, ok) = (if ok then add_mset f M else M)"
| "outstanding_step M (capture_enqueue f, ok) = (if ok then M - {#f#} else M)"
| "outstanding_step M e = M"

definition outstanding :: "event list \<Rightarrow> frame multiset" where
  "outstanding tr = foldl outstanding_step {#} tr"

text \<open>
  Whether the device is sending isochronous data, as far as the history tells: the value
  set by the last successful \<open>dc1394_video_set_transmission\<close>.
\<close>

fun transmission_step :: "bool \<Rightarrow> event \<Rightarrow> bool" where
  "transmission_step b (video_set_transmission on, ok) = (if ok then on else b)"
| "transmission_step b e = b"

definition transmission :: "event list \<Rightarrow> bool" where
  "transmission tr = foldl transmission_step False tr"

text \<open>\<open>precedes a b cs\<close>: call \<open>b\<close> occurs somewhere after the first occurrence of \<open>a\<close>.\<close>

definition precedes :: "call \<Rightarrow> call \<Rightarrow> call list \<Rightarrow> bool" where
  "precedes a b cs = (b \<in> set (dropWhile (\<lambda>c. c \<noteq> a) cs))"

subsection \<open>The methods\<close>

text \<open>\<open>oss << guid\<close>: the identifier in decimal.\<close>

fun decimal :: "nat \<Rightarrow> string" where
  "decimal n =
     (if n < 10 then [char_of (48 + n)]
      else decimal (n div 10) @ [char_of (48 + n mod 10)])"


definition freeCamera :: "unit action" where
  "freeCamera = void camera_free"

definition open_camera :: "driver \<Rightarrow> 64 word \<Rightarrow> unit action" where
  "open_camera drv guid =
     andThen (native drv (camera_new guid)) (\<lambda>ok s.
       if \<not> ok then
         throw (runtime_error (''Failed to initialize camera with GUID '' @ decimal (unat guid)))
           (s\<lparr>camHandle := None\<rparr>)
       else ret () (s\<lparr>camHandle := Some guid, isDeviceOpened := True\<rparr>))"

definition stopTransmission :: "driver \<Rightarrow> unit action" where
  "stopTransmission drv =
     andThen (native drv (video_set_transmission False)) (\<lambda>ok s.
       if \<not> ok then throw (runtime_error ''Failed to stop the transmission'') s
       else ret () (s\<lparr>isTransmitting := False\<rparr>))"

definition stopAcquisition :: "driver \<Rightarrow> unit action" where
  "stopAcquisition drv =
     andThen (native drv capture_stop) (\<lambda>ok.
       if \<not> ok then throw (runtime_error ''Failed to stop the acquisition session'')
       else stopTransmission drv)"

definition startTransmission :: "driver \<Rightarrow> unit action" where
  "startTransmission drv =
     andThen (native drv (video_set_transmission True)) (\<lambda>ok s.
       if \<not> ok then
         andThen (stopAcquisition drv) (\<lambda>_.
         andThen freeCamera (\<lambda>_.
         throw (runtime_error ''Failed to start isochronous transmission''))) s
       else ret () (s\<lparr>isTransmitting := True\<rparr>))"

text \<open>
  \<open>Device::cameraDmaCounts\<close> is declared outside the two source files; it is the
  parameter \<open>cameraDmaCounts\<close>.
\<close>

definition startAcquisition :: "driver \<Rightarrow> nat \<Rightarrow> unit action" where
  "startAcquisition drv cameraDmaCounts =
     andThen (native drv (capture_setup cameraDmaCounts)) (\<lambda>ok.
       if \<not> ok then
         andThen freeCamera (\<lambda>_.
         throw (runtime_error ''Failed to start the acquisition session''))
       else startTransmission drv)"

definition close :: "driver \<Rightarrow> unit action" where
  "close drv =
     andThen (\<lambda>s. if isTransmitting s
                  then andThen (stopAcquisition drv) (\<lambda>_ s'. ret () (s'\<lparr>isTransmitting := False\<rparr>)) s
                  else ret () s) (\<lambda>_ s.
       if isDeviceOpened s
       then andThen freeCamera (\<lambda>_ s'. ret () (s'\<lparr>isDeviceOpened := False\<rparr>)) s
       else ret () s)"


text \<open>
  \<open>setParameter(int count, ...)\<close> reads \<open>count\<close> groups from its variable arguments: a tag
  and the values the tag's case reads. The groups are the list \<open>ps\<close>; \<open>Unknown t\<close> is a tag
  that is none of the three enumerators and reaches the \<open>default\<close> case.
\<close>

datatype Parameters =
    BusSpeed int
  | Resolution int int int int
  | FrameRate int
  | Unknown int

text \<open>The body of the \<open>switch\<close>.\<close>

fun setParameter_case :: "driver \<Rightarrow> Parameters \<Rightarrow> unit action" where
  "setParameter_case drv (BusSpeed busSpeed) =
     andThen (native drv (video_set_iso_speed busSpeed)) (\<lambda>ok.
       if \<not> ok then throw (runtime_error ''Failed to switch bus speed'')
       else ret ())"
| "setParameter_case drv (Resolution left tp width height) =
     andThen (native drv (format7_set_roi left tp width height)) (\<lambda>ok.
       if \<not> ok then
         andThen freeCamera (\<lambda>_.
         throw (runtime_error ''Failed to set format 7 configurations''))
       else ret ())"
| "setParameter_case drv (FrameRate frameRate) =
     andThen (native drv (video_set_framerate frameRate)) (\<lambda>ok.
       if \<not> ok then
         andThen freeCamera (\<lambda>_.
         throw (runtime_error ''Failed to update frame rate''))
       else ret ())"
| "setParameter_case drv (Unknown t) = throw (out_of_range ''Unknown camera parameter'')"

text \<open>The \<open>for\<close> loop.\<close>

fun setParameter_loop :: "driver \<Rightarrow> Parameters list \<Rightarrow> unit action" where
  "setParameter_loop drv [] = ret ()"
| "setParameter_loop drv (p # ps) =
     andThen (setParameter_case drv p) (\<lambda>_. setParameter_loop drv ps)"

text \<open>The two calls before the loop ignore their status.\<close>

definition setParameter :: "driver \<Rightarrow> Parameters list \<Rightarrow> unit action" where
  "setParameter drv ps =
     andThen (native drv (video_set_transmission False)) (\<lambda>_.
     andThen (native drv capture_stop) (\<lambda>_.
     setParameter_loop drv ps))"

definition dc1394frameToMat :: "frame \<Rightarrow> Mat" where
  "dc1394frameToMat f = Mat f"

text \<open>
  \<open>dc1394_capture_dequeue(camHandle, DC1394_CAPTURE_POLICY_WAIT, &frameHandle)\<close>: the
  driver names the buffer; \<open>frameHandle\<close> is written when the call succeeds.
\<close>

definition dequeue :: "driver \<Rightarrow> bool action" where
  "dequeue drv s =
     (let f = buffer drv (trace s)
      in andThen (native drv (capture_dequeue f)) (\<lambda>ok s'.
           ret ok (if ok then s'\<lparr>frameHandle := f\<rparr> else s')) s)"

definition grabFrame :: "driver \<Rightarrow> Mat action" where
  "grabFrame drv =
     andThen (dequeue drv) (\<lambda>ok.
       if \<not> ok then
         andThen (stopAcquisition drv) (\<lambda>_.
         andThen freeCamera (\<lambda>_.
         throw (runtime_error ''Failed to grab a frame'')))
       else (\<lambda>s.
         let newFrame = dc1394frameToMat (frameHandle s)
         in andThen (native drv (capture_enqueue (frameHandle s))) (\<lambda>ok.
              if \<not> ok then
                andThen (stopAcquisition drv) (\<lambda>_.
                andThen freeCamera (\<lambda>_.
                throw (runtime_error ''Failed to enqueue back the frame buffer'')))
              else ret newFrame) s))"


text \<open>\<open>n\<close> calls of \<open>grabFrame\<close> in a row, all of which return: the state after the last.\<close>

fun grabFrames :: "nat \<Rightarrow> driver \<Rightarrow> camera \<Rightarrow> camera option" where
  "grabFrames 0 drv s = Some s"
| "grabFrames (Suc n) drv s =
     (case grabFrame drv s of
        (Inl e, s') \<Rightarrow> None
      | (Inr m, s') \<Rightarrow> grabFrames n drv s')"



subsection \<open>Concrete drivers and objects\<close>

text \<open>A driver on which exactly the calls in \<open>cs\<close> fail; every dequeue hands out buffer 0.\<close>

definition failsOn :: "call list \<Rightarrow> driver" where
  "failsOn cs = \<lparr>succeeds = (\<lambda>tr c. c \<notin> set cs), buffer = (\<lambda>tr. 0)\<rparr>"

text \<open>The object after the constructor.\<close>

definition fresh :: camera where
  "fresh = \<lparr>isDeviceOpened = False, isTransmitting = False, isCapturingVideo = False,
            camHandle = None, frameHandle = 0, trace = []\<rparr>"

text \<open>An opened camera, and one that is transmitting.\<close>

definition opened :: camera where
  "opened = snd (open_camera (failsOn []) 7 fresh)"

definition transmitting :: camera where
  "transmitting = snd (startAcquisition (failsOn []) 4 opened)"


section \<open>Properties\<close>

subsection \<open>Auxiliary facts\<close>

lemmas action_defs = ret_def throw_def andThen_def native_def void_def Let_def

lemma frees_simps [simp]:
  "frees [] = 0"
  "frees (xs @ ys) = frees xs + frees ys"
  "frees ((c, b) # xs) = (if c = camera_free then Suc (frees xs) else frees xs)"
  by (simp_all add: frees_def)

lemma live_append [simp]: "live (xs @ ys) = foldl live_step (live xs) ys"
  by (simp add: live_def)

lemma live_Nil [simp]: "live [] = False"
  by (simp add: live_def)

lemma outstanding_snoc [simp]: "outstanding (tr @ [e]) = outstanding_step (outstanding tr) e"
  by (simp add: outstanding_def)

lemma outstanding_Nil [simp]: "outstanding [] = {#}"
  by (simp add: outstanding_def)

lemma transmission_append [simp]:
  "transmission (xs @ ys) = foldl transmission_step (transmission xs) ys"
  by (simp add: transmission_def)

lemma stopTransmission_cases:
  "stopTransmission drv s =
     (if succeeds drv (trace s) (video_set_transmission False)
      then (Inr (), s\<lparr>trace := trace s @ [(video_set_transmission False, True)],
                       isTransmitting := False\<rparr>)
      else (Inl (runtime_error ''Failed to stop the transmission''),
            s\<lparr>trace := trace s @ [(video_set_transmission False, False)]\<rparr>))"
  by (simp add: stopTransmission_def action_defs)

lemma stopAcquisition_cases:
  "stopAcquisition drv s =
     (if \<not> succeeds drv (trace s) capture_stop
      then (Inl (runtime_error ''Failed to stop the acquisition session''),
            s\<lparr>trace := trace s @ [(capture_stop, False)]\<rparr>)
      else if \<not> succeeds drv (trace s @ [(capture_stop, True)]) (video_set_transmission False)
      then (Inl (runtime_error ''Failed to stop the transmission''),
            s\<lparr>trace := trace s @ [(capture_stop, True), (video_set_transmission False, False)]\<rparr>)
      else (Inr (),
            s\<lparr>trace := trace s @ [(capture_stop, True), (video_set_transmission False, True)],
              isTransmitting := False\<rparr>))"
  by (simp add: stopAcquisition_def stopTransmission_cases action_defs)

lemma freeCamera_eq: "freeCamera s = (Inr (), s\<lparr>trace := trace s @ [(camera_free, True)]\<rparr>)"
  by (simp add: freeCamera_def void_def)

lemma dequeue_cases:
  "dequeue drv s =
     (if succeeds drv (trace s) (capture_dequeue (buffer drv (trace s)))
      then (Inr True, s\<lparr>trace := trace s @ [(capture_dequeue (buffer drv (trace s)), True)],
                         frameHandle := buffer drv (trace s)\<rparr>)
      else (Inr False, s\<lparr>trace := trace s @ [(capture_dequeue (buffer drv (trace s)), False)]\<rparr>))"
  by (simp add: dequeue_def action_defs)

lemma close_cases:
  "close drv s =
     (case (if isTransmitting s then stopAcquisition drv s else (Inr (), s)) of
        (Inl e, s1) \<Rightarrow> (Inl e, s1)
      | (Inr _, s1) \<Rightarrow>
          (Inr (), if isDeviceOpened s1
                   then s1\<lparr>isTransmitting := False,
                           trace := trace s1 @ [(camera_free, True)],
                           isDeviceOpened := False\<rparr>
                   else s1\<lparr>isTransmitting := False\<rparr>))"
  by (auto simp: close_def andThen_def ret_def freeCamera_eq stopAcquisition_cases
           split: prod.splits sum.splits)

lemmas run_defs = grabFrame_def dequeue_def stopAcquisition_def stopTransmission_def
  startTransmission_def startAcquisition_def freeCamera_def action_defs

lemma opened_eq:
  "opened = \<lparr>isDeviceOpened = True, isTransmitting = False, isCapturingVideo = False,
             camHandle = Some 7, frameHandle = 0, trace = [(camera_new 7, True)]\<rparr>"
  by (simp add: opened_def open_camera_def fresh_def failsOn_def action_defs)

lemma transmitting_eq:
  "transmitting = \<lparr>isDeviceOpened = True, isTransmitting = True, isCapturingVideo = False,
       camHandle = Some 7, frameHandle = 0,
       trace = [(camera_new 7, True), (capture_setup 4, True), (video_set_transmission True, True)]\<rparr>"
  by (simp add: transmitting_def opened_eq startAcquisition_def startTransmission_def
        failsOn_def action_defs)

subsection \<open>Stopping the acquisition\<close>

text \<open>
  C1 (as amended). A call of \<open>stopAcquisition\<close> on a transmitting camera makes its
  native calls in this order: \<open>dc1394_capture_stop\<close> first, which releases the capture
  buffers, and then, only when that call succeeded, \<open>dc1394_video_set_transmission\<close> with
  \<open>DC1394_OFF\<close>. When the capture stop fails, no other call is made.
\<close>

theorem stopAcquisition_order:
  "isTransmitting s \<Longrightarrow>
   map fst (trace (snd (stopAcquisition drv s))) =
     map fst (trace s) @
       (if succeeds drv (trace s) capture_stop
        then [capture_stop, video_set_transmission False]
        else [capture_stop])"
  by (simp add: stopAcquisition_cases)

text \<open>On a transmitting camera with a driver that never fails.\<close>

theorem stopAcquisition_order_witness:
  "isTransmitting transmitting \<and>
   map fst (trace (snd (stopAcquisition (failsOn []) transmitting))) =
     [camera_new 7, capture_setup 4, video_set_transmission True,
      capture_stop, video_set_transmission False]"
  using stopAcquisition_order [of transmitting "failsOn []"]
  by (simp add: transmitting_eq failsOn_def)

text \<open>
  The order the claim states, transmission off before the capture stop, does not occur:
  in the calls of that run no capture stop follows the transmission-off call.
\<close>

theorem stopAcquisition_order_counterexample:
  "\<not> precedes (video_set_transmission False) capture_stop
       (map fst (trace (snd (stopAcquisition (failsOn []) transmitting))))
   \<and> precedes capture_stop (video_set_transmission False)
       (map fst (trace (snd (stopAcquisition (failsOn []) transmitting))))"
  by (simp add: stopAcquisition_cases transmitting_eq failsOn_def precedes_def)

text \<open>
  C3 (as amended). A failure of either native call of \<open>stopAcquisition\<close> is thrown to the
  caller at once. When the capture stop fails, the transmission is not switched off (the
  call is not made) and \<open>isTransmitting\<close> keeps its value; when the transmission-off call
  fails, \<open>isTransmitting\<close> keeps its value too. Only when both calls succeed does the
  method return, with \<open>isTransmitting\<close> cleared.
\<close>

theorem stopAcquisition_failure:
  assumes "stopAcquisition drv s = (r, s')"
  shows "(\<not> succeeds drv (trace s) capture_stop \<longrightarrow>
            r = Inl (runtime_error ''Failed to stop the acquisition session'') \<and>
            trace s' = trace s @ [(capture_stop, False)] \<and>
            isTransmitting s' = isTransmitting s) \<and>
         (succeeds drv (trace s) capture_stop \<and>
          \<not> succeeds drv (trace s @ [(capture_stop, True)]) (video_set_transmission False) \<longrightarrow>
            r = Inl (runtime_error ''Failed to stop the transmission'') \<and>
            trace s' = trace s @ [(capture_stop, True), (video_set_transmission False, False)] \<and>
            isTransmitting s' = isTransmitting s) \<and>
         (succeeds drv (trace s) capture_stop \<and>
          succeeds drv (trace s @ [(capture_stop, True)]) (video_set_transmission False) \<longrightarrow>
            r = Inr () \<and>
            trace s' = trace s @ [(capture_stop, True), (video_set_transmission False, True)] \<and>
            \<not> isTransmitting s')"
  using assms by (auto simp: stopAcquisition_cases split: if_splits)

text \<open>On a transmitting camera whose transmission-off call fails.\<close>

theorem stopAcquisition_failure_witness:
  "fst (stopAcquisition (failsOn [video_set_transmission False]) transmitting) =
     Inl (runtime_error ''Failed to stop the transmission'') \<and>
   isTransmitting (snd (stopAcquisition (failsOn [video_set_transmission False]) transmitting))"
  using stopAcquisition_failure [of "failsOn [video_set_transmission False]" transmitting
          "fst (stopAcquisition (failsOn [video_set_transmission False]) transmitting)"
          "snd (stopAcquisition (failsOn [video_set_transmission False]) transmitting)"]
  by (simp add: transmitting_eq failsOn_def)

text \<open>
  When the capture stop fails on a transmitting camera, the second step is not attempted
  and the camera still counts as transmitting.
\<close>

theorem stopAcquisition_failure_counterexample:
  "fst (stopAcquisition (failsOn [capture_stop]) transmitting) =
     Inl (runtime_error ''Failed to stop the acquisition session'') \<and>
   video_set_transmission False \<notin>
     set (map fst (drop (length (trace transmitting))
        (trace (snd (stopAcquisition (failsOn [capture_stop]) transmitting))))) \<and>
   isTransmitting (snd (stopAcquisition (failsOn [capture_stop]) transmitting))"
  by (simp add: stopAcquisition_cases transmitting_eq failsOn_def)

subsection \<open>Grabbing frames\<close>

text \<open>
  C6 (as amended). When the dequeue or the re-enqueue of the buffer fails in \<open>grabFrame\<close>
  and the \<open>stopAcquisition\<close> that follows returns, \<open>grabFrame\<close> has stopped capture and
  transmission, frees the camera and throws its own error (``Failed to grab a frame'' or
  ``Failed to enqueue back the frame buffer'').
\<close>

theorem grabFrame_failure:
  "(dequeue drv s = (Inr False, s1) \<and> stopAcquisition drv s1 = (Inr (), s2) \<longrightarrow>
      grabFrame drv s = (Inl (runtime_error ''Failed to grab a frame''), snd (freeCamera s2)) \<and>
      \<not> isTransmitting (snd (freeCamera s2)) \<and>
      trace (snd (freeCamera s2)) =
        trace s1 @ [(capture_stop, True), (video_set_transmission False, True),
                    (camera_free, True)]) \<and>
   (dequeue drv s = (Inr True, s1) \<and>
    native drv (capture_enqueue (frameHandle s1)) s1 = (Inr False, s2) \<and>
    stopAcquisition drv s2 = (Inr (), s3) \<longrightarrow>
      grabFrame drv s =
        (Inl (runtime_error ''Failed to enqueue back the frame buffer''), snd (freeCamera s3)) \<and>
      \<not> isTransmitting (snd (freeCamera s3)) \<and>
      trace (snd (freeCamera s3)) =
        trace s2 @ [(capture_stop, True), (video_set_transmission False, True),
                    (camera_free, True)])"
  by (auto simp: run_defs split: if_splits)

text \<open>A failing dequeue, and a failing enqueue, on a transmitting camera.\<close>

theorem grabFrame_failure_witness:
  "grabFrame (failsOn [capture_dequeue 0]) transmitting =
     (Inl (runtime_error ''Failed to grab a frame''),
      transmitting\<lparr>isTransmitting := False,
        trace := trace transmitting @ [(capture_dequeue 0, False), (capture_stop, True),
          (video_set_transmission False, True), (camera_free, True)]\<rparr>) \<and>
   grabFrame (failsOn [capture_enqueue 0]) transmitting =
     (Inl (runtime_error ''Failed to enqueue back the frame buffer''),
      transmitting\<lparr>isTransmitting := False,
        trace := trace transmitting @ [(capture_dequeue 0, True), (capture_enqueue 0, False),
          (capture_stop, True), (video_set_transmission False, True), (camera_free, True)]\<rparr>)"
  using grabFrame_failure [of "failsOn [capture_dequeue 0]" transmitting
      "snd (dequeue (failsOn [capture_dequeue 0]) transmitting)"
      "snd (stopAcquisition (failsOn [capture_dequeue 0])
             (snd (dequeue (failsOn [capture_dequeue 0]) transmitting)))"]
    grabFrame_failure [of "failsOn [capture_enqueue 0]" transmitting
      "snd (dequeue (failsOn [capture_enqueue 0]) transmitting)"
      "snd (native (failsOn [capture_enqueue 0]) (capture_enqueue 0)
             (snd (dequeue (failsOn [capture_enqueue 0]) transmitting)))"
      "snd (stopAcquisition (failsOn [capture_enqueue 0])
             (snd (native (failsOn [capture_enqueue 0]) (capture_enqueue 0)
               (snd (dequeue (failsOn [capture_enqueue 0]) transmitting)))))"]
  by (simp add: dequeue_cases stopAcquisition_cases freeCamera_eq native_def
        transmitting_eq failsOn_def)

text \<open>
  When the capture stop fails as well, \<open>grabFrame\<close> throws the error of
  \<open>stopAcquisition\<close>; the transmission is not stopped and the camera is not freed.
\<close>

theorem grabFrame_failure_counterexample:
  "fst (grabFrame (failsOn [capture_dequeue 0, capture_stop]) transmitting) =
      Inl (runtime_error ''Failed to stop the acquisition session'') \<and>
   isTransmitting (snd (grabFrame (failsOn [capture_dequeue 0, capture_stop]) transmitting)) \<and>
   frees (trace (snd (grabFrame (failsOn [capture_dequeue 0, capture_stop]) transmitting))) = 0 \<and>
   live (trace (snd (grabFrame (failsOn [capture_dequeue 0, capture_stop]) transmitting)))"
  by (simp add: run_defs transmitting_eq failsOn_def live_def)

lemma grabFrame_success:
  assumes "grabFrame drv s = (Inr m, s')"
  shows "\<exists>f. m = Mat f \<and>
           trace s' = trace s @ [(capture_dequeue f, True), (capture_enqueue f, True)]"
  using assms by (auto simp: run_defs dc1394frameToMat_def split: if_splits)

lemma grabFrame_outstanding:
  assumes "grabFrame drv s = (Inr m, s')"
  shows "outstanding (trace s') = outstanding (trace s)"
proof -
  obtain f where
    "trace s' = (trace s @ [(capture_dequeue f, True)]) @ [(capture_enqueue f, True)]"
    using grabFrame_success [OF assms] by auto
  then show ?thesis by (simp only: outstanding_snoc) simp
qed

lemma grabFrames_outstanding:
  "grabFrames n drv s = Some t \<Longrightarrow> outstanding (trace t) = outstanding (trace s)"
proof (induction n arbitrary: s)
  case 0
  then show ?case by simp
next
  case (Suc n)
  then show ?case
    by (auto split: prod.splits sum.splits dest: grabFrame_outstanding)
qed

text \<open>
  C7. A call of \<open>grabFrame\<close> that returns has dequeued one buffer and enqueued that same
  buffer again, so the buffers outstanding are the same before and after; after any number
  of grabs that all return, started with no buffer outstanding, no buffer is outstanding.
\<close>

theorem grabFrame_roundtrip:
  "(grabFrame drv s = (Inr m, s') \<longrightarrow>
      (\<exists>f. m = Mat f \<and>
           trace s' = trace s @ [(capture_dequeue f, True), (capture_enqueue f, True)]) \<and>
      outstanding (trace s') = outstanding (trace s)) \<and>
   (outstanding (trace s) = {#} \<and> grabFrames n drv s = Some t \<longrightarrow>
      size (outstanding (trace t)) = 0)"
  using grabFrame_success [of drv s m s'] grabFrame_outstanding [of drv s m s']
        grabFrames_outstanding [of n drv s t]
  by simp

lemma grabFrame_ok:
  "grabFrame (failsOn []) s =
     (Inr (Mat 0), s\<lparr>trace := trace s @ [(capture_dequeue 0, True), (capture_enqueue 0, True)],
                      frameHandle := 0\<rparr>)"
  by (simp add: run_defs dc1394frameToMat_def failsOn_def)

text \<open>Three grabs on a transmitting camera with a driver that never fails.\<close>

theorem grabFrame_roundtrip_witness:
  "outstanding (trace transmitting) = {#} \<and>
   grabFrame (failsOn []) transmitting =
     (Inr (Mat 0),
      transmitting\<lparr>trace := trace transmitting @
         [(capture_dequeue 0, True), (capture_enqueue 0, True)], frameHandle := 0\<rparr>) \<and>
   (\<exists>t. grabFrames 3 (failsOn []) transmitting = Some t \<and> size (outstanding (trace t)) = 0)"
proof -
  have o: "outstanding (trace transmitting) = {#}"
    by (simp add: transmitting_eq outstanding_def)
  obtain t where t: "grabFrames 3 (failsOn []) transmitting = Some t"
    by (simp add: numeral_3_eq_3 grabFrame_ok)
  show ?thesis
    using o t grabFrame_ok [of transmitting]
      grabFrame_roundtrip [of "failsOn []" transmitting "Mat 0"
        "transmitting\<lparr>trace := trace transmitting @
           [(capture_dequeue 0, True), (capture_enqueue 0, True)], frameHandle := 0\<rparr>" 3 t]
    by simp
qed

subsection \<open>The capture thread\<close>







subsection \<open>Closing\<close>

text \<open>
  C8 (as amended). \<open>close\<close> returns without error on every camera that is not
  transmitting. Whenever a first \<open>close\<close> returns, a second \<open>close\<close> is a no-op: it
  returns without error and leaves the object and the history of native calls as they
  are, so the camera is freed at most once by the two calls; and the first call, on a
  transmitting camera, has stopped capture and transmission before it freed the camera.
\<close>

theorem close_idempotent:
  "(\<not> isTransmitting s \<longrightarrow> fst (close drv s) = Inr ()) \<and>
   (close drv s = (Inr (), s1) \<longrightarrow>
      close drv s1 = (Inr (), s1) \<and>
      frees (trace s1) \<le> frees (trace s) + 1 \<and>
      trace s1 = trace s @
        (if isTransmitting s
         then [(capture_stop, True), (video_set_transmission False, True)] else []) @
        (if isDeviceOpened s then [(camera_free, True)] else []))"
  by (auto simp: close_cases stopAcquisition_cases split: if_splits)

text \<open>Closing a transmitting camera twice, with a driver that never fails.\<close>

theorem close_idempotent_witness:
  "close (failsOn []) transmitting = (Inr (), snd (close (failsOn []) transmitting)) \<and>
   close (failsOn []) (snd (close (failsOn []) transmitting)) =
     (Inr (), snd (close (failsOn []) transmitting)) \<and>
   trace (snd (close (failsOn []) transmitting)) =
     trace transmitting @
       [(capture_stop, True), (video_set_transmission False, True), (camera_free, True)]"
  using close_idempotent [of transmitting "failsOn []" "snd (close (failsOn []) transmitting)"]
  by (simp add: close_cases stopAcquisition_cases transmitting_eq failsOn_def)

text \<open>
  On a transmitting camera whose capture stop fails, both calls of \<open>close\<close> throw, and
  the second is not a no-op: it makes the native call again.
\<close>

theorem close_idempotent_counterexample:
  "fst (close (failsOn [capture_stop]) transmitting) =
     Inl (runtime_error ''Failed to stop the acquisition session'') \<and>
   fst (close (failsOn [capture_stop]) (snd (close (failsOn [capture_stop]) transmitting))) =
     Inl (runtime_error ''Failed to stop the acquisition session'') \<and>
   trace (snd (close (failsOn [capture_stop])
       (snd (close (failsOn [capture_stop]) transmitting)))) =
     trace transmitting @ [(capture_stop, False), (capture_stop, False)]"
  by (simp add: close_cases stopAcquisition_cases transmitting_eq failsOn_def)

subsection \<open>Setting parameters\<close>




text \<open>The state in which the loop of \<open>setParameter\<close> starts.\<close>

lemma setParameter_eq_loop:
  "setParameter drv ps s =
     setParameter_loop drv ps
       (snd (native drv capture_stop (snd (native drv (video_set_transmission False) s))))"
  by (simp add: setParameter_def andThen_def native_def Let_def)






lemma setParameter_case_Inr:
  assumes "setParameter_case drv p s = (Inr u, s1)"
  shows "frees (trace s1) = frees (trace s) \<and> live (trace s1) = live (trace s) \<and>
         isDeviceOpened s1 = isDeviceOpened s"
  using assms by (cases p) (auto simp: action_defs freeCamera_def split: if_splits)

lemma setParameter_loop_Inr:
  "setParameter_loop drv ps s = (Inr u, s1) \<Longrightarrow>
     frees (trace s1) = frees (trace s) \<and> live (trace s1) = live (trace s) \<and>
     isDeviceOpened s1 = isDeviceOpened s"
proof (induction ps arbitrary: s)
  case Nil
  then show ?case by (simp add: ret_def)
next
  case (Cons p ps)
  obtain r s2 where c: "setParameter_case drv p s = (r, s2)"
    by (cases "setParameter_case drv p s")
  show ?case
  proof (cases r)
    case (Inl e)
    with c Cons.prems show ?thesis by (simp add: andThen_def)
  next
    case (Inr v)
    with c Cons.prems have "setParameter_loop drv ps s2 = (Inr u, s1)"
      by (simp add: andThen_def)
    from Cons.IH [OF this] setParameter_case_Inr [of drv p s v s2] c Inr
    show ?thesis by simp
  qed
qed

text \<open>A loop that throws has applied a prefix of the parameters and failed on the next.\<close>

lemma setParameter_loop_Inl:
  "setParameter_loop drv ps s = (Inl e, s') \<Longrightarrow>
     \<exists>pre p post s1. ps = pre @ p # post \<and> setParameter_loop drv pre s = (Inr (), s1) \<and>
        setParameter_case drv p s1 = (Inl e, s')"
proof (induction ps arbitrary: s)
  case Nil
  then show ?case by (simp add: ret_def)
next
  case (Cons p ps)
  obtain r s2 where c: "setParameter_case drv p s = (r, s2)"
    by (cases "setParameter_case drv p s")
  show ?case
  proof (cases r)
    case (Inl e1)
    with c Cons.prems have "setParameter_case drv p s = (Inl e, s')"
      by (simp add: andThen_def)
    moreover have "setParameter_loop drv [] s = (Inr (), s)"
      by (simp add: ret_def)
    ultimately show ?thesis by blast
  next
    case (Inr v)
    with c Cons.prems have "setParameter_loop drv ps s2 = (Inl e, s')"
      by (simp add: andThen_def)
    from Cons.IH [OF this] obtain pre q post s1 where
      ps: "ps = pre @ q # post" and pre: "setParameter_loop drv pre s2 = (Inr (), s1)"
      and q: "setParameter_case drv q s1 = (Inl e, s')"
      by blast
    have "setParameter_loop drv (p # pre) s = (Inr (), s1)"
      using c Inr pre by (simp add: andThen_def)
    moreover have "p # ps = (p # pre) @ q # post"
      using ps by simp
    ultimately show ?thesis using q by blast
  qed
qed

lemma setParameter_Inl:
  assumes "setParameter drv ps s = (Inl e, s')"
  shows "\<exists>pre p post s1. ps = pre @ p # post \<and> setParameter drv pre s = (Inr (), s1) \<and>
     setParameter_case drv p s1 = (Inl e, s') \<and>
     frees (trace s1) = frees (trace s) \<and> live (trace s1) = live (trace s) \<and>
     isDeviceOpened s1 = isDeviceOpened s"
proof -
  let ?s2 = "snd (native drv capture_stop (snd (native drv (video_set_transmission False) s)))"
  from assms have "setParameter_loop drv ps ?s2 = (Inl e, s')"
    by (simp add: setParameter_eq_loop)
  from setParameter_loop_Inl [OF this] obtain pre p post s1 where
    ps: "ps = pre @ p # post" and pre: "setParameter_loop drv pre ?s2 = (Inr (), s1)"
    and p: "setParameter_case drv p s1 = (Inl e, s')"
    by blast
  have "frees (trace s1) = frees (trace s) \<and> live (trace s1) = live (trace s) \<and>
     isDeviceOpened s1 = isDeviceOpened s"
    using setParameter_loop_Inr [OF pre] by (simp add: native_def Let_def)
  moreover have "setParameter drv pre s = (Inr (), s1)"
    using pre by (simp add: setParameter_eq_loop)
  ultimately show ?thesis using ps p by blast
qed

text \<open>The loop over a list in two parts: the second part runs when the first returns.\<close>

lemma setParameter_loop_append:
  "setParameter_loop drv (pre @ ps) s =
     andThen (setParameter_loop drv pre) (\<lambda>_. setParameter_loop drv ps) s"
proof (induction pre arbitrary: s)
  case Nil
  show ?case by (simp add: andThen_def ret_def)
next
  case (Cons p pre)
  show ?case
    by (cases "setParameter_case drv p s") (auto simp: andThen_def Cons.IH split: sum.splits)
qed

text \<open>What \<open>setParameter\<close> does at a parameter whose predecessors were applied.\<close>

lemma setParameter_at:
  assumes "setParameter drv pre s = (Inr (), s1)"
  shows "setParameter drv (pre @ p # post) s =
           andThen (setParameter_case drv p) (\<lambda>_. setParameter_loop drv post) s1"
proof -
  let ?s2 = "snd (native drv capture_stop (snd (native drv (video_set_transmission False) s)))"
  have "setParameter_loop drv pre ?s2 = (Inr (), s1)"
    using assms by (simp add: setParameter_eq_loop)
  then show ?thesis
    by (simp add: setParameter_eq_loop [of drv "pre @ p # post"] setParameter_loop_append
          andThen_def)
qed

lemma setParameter_Inr:
  assumes "setParameter drv pre s = (Inr (), s1)"
  shows "frees (trace s1) = frees (trace s) \<and> live (trace s1) = live (trace s) \<and>
         isDeviceOpened s1 = isDeviceOpened s"
proof -
  let ?s2 = "snd (native drv capture_stop (snd (native drv (video_set_transmission False) s)))"
  have "setParameter_loop drv pre ?s2 = (Inr (), s1)"
    using assms by (simp add: setParameter_eq_loop)
  from setParameter_loop_Inr [OF this] show ?thesis
    by (simp add: native_def Let_def)
qed

text \<open>
  C5. Let \<open>setParameter\<close> have applied the parameters \<open>pre\<close>, and let the native call of
  the next parameter fail. If that parameter is \<open>BusSpeed\<close>, the call throws at once,
  without a call of \<open>freeCamera\<close>: the native camera object is as live as before the call
  and \<open>isDeviceOpened\<close> is unchanged. If it is \<open>Resolution\<close> or \<open>FrameRate\<close>, the call
  runs \<open>freeCamera\<close> after the failed native call and then throws, so the native camera
  object is gone; \<open>freeCamera\<close> is the step by which \<open>close\<close> releases the camera. The
  parameters after the failing one are not looked at. Conversely, every call of
  \<open>setParameter\<close> that throws has failed in this way on one of its parameters (or has met
  an unknown tag).
\<close>

theorem setParameter_failure:
  "(setParameter drv pre s = (Inr (), s1) \<longrightarrow>
      (\<not> succeeds drv (trace s1) (video_set_iso_speed v) \<longrightarrow>
         setParameter drv (pre @ BusSpeed v # post) s =
           (Inl (runtime_error ''Failed to switch bus speed''),
            s1\<lparr>trace := trace s1 @ [(video_set_iso_speed v, False)]\<rparr>) \<and>
         frees (trace s1 @ [(video_set_iso_speed v, False)]) = frees (trace s) \<and>
         live (trace s1 @ [(video_set_iso_speed v, False)]) = live (trace s) \<and>
         isDeviceOpened s1 = isDeviceOpened s) \<and>
      (\<not> succeeds drv (trace s1) (format7_set_roi l tp w h) \<longrightarrow>
         setParameter drv (pre @ Resolution l tp w h # post) s =
           (Inl (runtime_error ''Failed to set format 7 configurations''),
            snd (freeCamera (s1\<lparr>trace := trace s1 @ [(format7_set_roi l tp w h, False)]\<rparr>))) \<and>
         trace (snd (freeCamera (s1\<lparr>trace := trace s1 @ [(format7_set_roi l tp w h, False)]\<rparr>))) =
           trace s1 @ [(format7_set_roi l tp w h, False), (camera_free, True)] \<and>
         frees (trace s1 @ [(format7_set_roi l tp w h, False), (camera_free, True)]) =
           frees (trace s) + 1 \<and>
         \<not> live (trace s1 @ [(format7_set_roi l tp w h, False), (camera_free, True)])) \<and>
      (\<not> succeeds drv (trace s1) (video_set_framerate v) \<longrightarrow>
         setParameter drv (pre @ FrameRate v # post) s =
           (Inl (runtime_error ''Failed to update frame rate''),
            snd (freeCamera (s1\<lparr>trace := trace s1 @ [(video_set_framerate v, False)]\<rparr>))) \<and>
         trace (snd (freeCamera (s1\<lparr>trace := trace s1 @ [(video_set_framerate v, False)]\<rparr>))) =
           trace s1 @ [(video_set_framerate v, False), (camera_free, True)] \<and>
         frees (trace s1 @ [(video_set_framerate v, False), (camera_free, True)]) =
           frees (trace s) + 1 \<and>
         \<not> live (trace s1 @ [(video_set_framerate v, False), (camera_free, True)]))) \<and>
   (\<forall>t. isDeviceOpened t \<and> \<not> isTransmitting t \<longrightarrow>
      trace (snd (close drv t)) = trace (snd (freeCamera t))) \<and>
   (setParameter drv ps s = (Inl e, s') \<longrightarrow>
      (\<exists>pre p post s1. ps = pre @ p # post \<and> setParameter drv pre s = (Inr (), s1) \<and>
         (case p of
            BusSpeed v \<Rightarrow>
              \<not> succeeds drv (trace s1) (video_set_iso_speed v) \<and>
              e = runtime_error ''Failed to switch bus speed''
          | Resolution l tp w h \<Rightarrow>
              \<not> succeeds drv (trace s1) (format7_set_roi l tp w h) \<and>
              e = runtime_error ''Failed to set format 7 configurations''
          | FrameRate v \<Rightarrow>
              \<not> succeeds drv (trace s1) (video_set_framerate v) \<and>
              e = runtime_error ''Failed to update frame rate''
          | Unknown t \<Rightarrow> e = out_of_range ''Unknown camera parameter'' \<and> s' = s1)))"
proof -
  have forward: "setParameter drv pre s = (Inr (), s1) \<longrightarrow>
      (\<not> succeeds drv (trace s1) (video_set_iso_speed v) \<longrightarrow>
         setParameter drv (pre @ BusSpeed v # post) s =
           (Inl (runtime_error ''Failed to switch bus speed''),
            s1\<lparr>trace := trace s1 @ [(video_set_iso_speed v, False)]\<rparr>) \<and>
         frees (trace s1 @ [(video_set_iso_speed v, False)]) = frees (trace s) \<and>
         live (trace s1 @ [(video_set_iso_speed v, False)]) = live (trace s) \<and>
         isDeviceOpened s1 = isDeviceOpened s) \<and>
      (\<not> succeeds drv (trace s1) (format7_set_roi l tp w h) \<longrightarrow>
         setParameter drv (pre @ Resolution l tp w h # post) s =
           (Inl (runtime_error ''Failed to set format 7 configurations''),
            snd (freeCamera (s1\<lparr>trace := trace s1 @ [(format7_set_roi l tp w h, False)]\<rparr>))) \<and>
         trace (snd (freeCamera (s1\<lparr>trace := trace s1 @ [(format7_set_roi l tp w h, False)]\<rparr>))) =
           trace s1 @ [(format7_set_roi l tp w h, False), (camera_free, True)] \<and>
         frees (trace s1 @ [(format7_set_roi l tp w h, False), (camera_free, True)]) =
           frees (trace s) + 1 \<and>
         \<not> live (trace s1 @ [(format7_set_roi l tp w h, False), (camera_free, True)])) \<and>
      (\<not> succeeds drv (trace s1) (video_set_framerate v) \<longrightarrow>
         setParameter drv (pre @ FrameRate v # post) s =
           (Inl (runtime_error ''Failed to update frame rate''),
            snd (freeCamera (s1\<lparr>trace := trace s1 @ [(video_set_framerate v, False)]\<rparr>))) \<and>
         trace (snd (freeCamera (s1\<lparr>trace := trace s1 @ [(video_set_framerate v, False)]\<rparr>))) =
           trace s1 @ [(video_set_framerate v, False), (camera_free, True)] \<and>
         frees (trace s1 @ [(video_set_framerate v, False), (camera_free, True)]) =
           frees (trace s) + 1 \<and>
         \<not> live (trace s1 @ [(video_set_framerate v, False), (camera_free, True)]))"
  proof
    assume pre: "setParameter drv pre s = (Inr (), s1)"
    note keep = setParameter_Inr [OF pre]
    show "(\<not> succeeds drv (trace s1) (video_set_iso_speed v) \<longrightarrow>
         setParameter drv (pre @ BusSpeed v # post) s =
           (Inl (runtime_error ''Failed to switch bus speed''),
            s1\<lparr>trace := trace s1 @ [(video_set_iso_speed v, False)]\<rparr>) \<and>
         frees (trace s1 @ [(video_set_iso_speed v, False)]) = frees (trace s) \<and>
         live (trace s1 @ [(video_set_iso_speed v, False)]) = live (trace s) \<and>
         isDeviceOpened s1 = isDeviceOpened s) \<and>
      (\<not> succeeds drv (trace s1) (format7_set_roi l tp w h) \<longrightarrow>
         setParameter drv (pre @ Resolution l tp w h # post) s =
           (Inl (runtime_error ''Failed to set format 7 configurations''),
            snd (freeCamera (s1\<lparr>trace := trace s1 @ [(format7_set_roi l tp w h, False)]\<rparr>))) \<and>
         trace (snd (freeCamera (s1\<lparr>trace := trace s1 @ [(format7_set_roi l tp w h, False)]\<rparr>))) =
           trace s1 @ [(format7_set_roi l tp w h, False), (camera_free, True)] \<and>
         frees (trace s1 @ [(format7_set_roi l tp w h, False), (camera_free, True)]) =
           frees (trace s) + 1 \<and>
         \<not> live (trace s1 @ [(format7_set_roi l tp w h, False), (camera_free, True)])) \<and>
      (\<not> succeeds drv (trace s1) (video_set_framerate v) \<longrightarrow>
         setParameter drv (pre @ FrameRate v # post) s =
           (Inl (runtime_error ''Failed to update frame rate''),
            snd (freeCamera (s1\<lparr>trace := trace s1 @ [(video_set_framerate v, False)]\<rparr>))) \<and>
         trace (snd (freeCamera (s1\<lparr>trace := trace s1 @ [(video_set_framerate v, False)]\<rparr>))) =
           trace s1 @ [(video_set_framerate v, False), (camera_free, True)] \<and>
         frees (trace s1 @ [(video_set_framerate v, False), (camera_free, True)]) =
           frees (trace s) + 1 \<and>
         \<not> live (trace s1 @ [(video_set_framerate v, False), (camera_free, True)]))"
      using keep
      by (simp add: setParameter_at [OF pre] action_defs freeCamera_def)
  qed
  have release: "\<forall>t. isDeviceOpened t \<and> \<not> isTransmitting t \<longrightarrow>
      trace (snd (close drv t)) = trace (snd (freeCamera t))"
    by (simp add: close_cases freeCamera_eq)
  have backward: "setParameter drv ps s = (Inl e, s') \<longrightarrow>
      (\<exists>pre p post s1. ps = pre @ p # post \<and> setParameter drv pre s = (Inr (), s1) \<and>
         (case p of
            BusSpeed v \<Rightarrow>
              \<not> succeeds drv (trace s1) (video_set_iso_speed v) \<and>
              e = runtime_error ''Failed to switch bus speed''
          | Resolution l tp w h \<Rightarrow>
              \<not> succeeds drv (trace s1) (format7_set_roi l tp w h) \<and>
              e = runtime_error ''Failed to set format 7 configurations''
          | FrameRate v \<Rightarrow>
              \<not> succeeds drv (trace s1) (video_set_framerate v) \<and>
              e = runtime_error ''Failed to update frame rate''
          | Unknown t \<Rightarrow> e = out_of_range ''Unknown camera parameter'' \<and> s' = s1))"
  proof
    assume "setParameter drv ps s = (Inl e, s')"
    from setParameter_Inl [OF this] obtain pre p post s1 where
      ps: "ps = pre @ p # post" and pre: "setParameter drv pre s = (Inr (), s1)"
      and p: "setParameter_case drv p s1 = (Inl e, s')"
      by blast
    have "case p of
            BusSpeed v \<Rightarrow>
              \<not> succeeds drv (trace s1) (video_set_iso_speed v) \<and>
              e = runtime_error ''Failed to switch bus speed''
          | Resolution l tp w h \<Rightarrow>
              \<not> succeeds drv (trace s1) (format7_set_roi l tp w h) \<and>
              e = runtime_error ''Failed to set format 7 configurations''
          | FrameRate v \<Rightarrow>
              \<not> succeeds drv (trace s1) (video_set_framerate v) \<and>
              e = runtime_error ''Failed to update frame rate''
          | Unknown t \<Rightarrow> e = out_of_range ''Unknown camera parameter'' \<and> s' = s1"
      using p by (cases p) (auto simp: action_defs freeCamera_def split: if_splits)
    then show "\<exists>pre p post s1. ps = pre @ p # post \<and> setParameter drv pre s = (Inr (), s1) \<and>
         (case p of
            BusSpeed v \<Rightarrow>
              \<not> succeeds drv (trace s1) (video_set_iso_speed v) \<and>
              e = runtime_error ''Failed to switch bus speed''
          | Resolution l tp w h \<Rightarrow>
              \<not> succeeds drv (trace s1) (format7_set_roi l tp w h) \<and>
              e = runtime_error ''Failed to set format 7 configurations''
          | FrameRate v \<Rightarrow>
              \<not> succeeds drv (trace s1) (video_set_framerate v) \<and>
              e = runtime_error ''Failed to update frame rate''
          | Unknown t \<Rightarrow> e = out_of_range ''Unknown camera parameter'' \<and> s' = s1)"
      using ps pre by blast
  qed
  from forward release backward show ?thesis by blast
qed

lemma setParameter_BusSpeed_applied:
  "setParameter (failsOn cs) [BusSpeed 2] opened =
     (if video_set_iso_speed 2 \<in> set cs
      then Inl (runtime_error ''Failed to switch bus speed'') else Inr (),
      opened\<lparr>trace := trace opened @
        [(video_set_transmission False, video_set_transmission False \<notin> set cs),
         (capture_stop, capture_stop \<notin> set cs),
         (video_set_iso_speed 2, video_set_iso_speed 2 \<notin> set cs)]\<rparr>)"
  by (simp add: setParameter_def action_defs opened_eq failsOn_def)

text \<open>
  An opened camera on which the bus speed is set and then, in three runs, the bus speed,
  the resolution and the frame rate cannot be set; a parameter follows the failing one.
\<close>

theorem setParameter_failure_witness:
  "setParameter (failsOn [video_set_iso_speed 5]) [BusSpeed 2, BusSpeed 5, FrameRate 3] opened =
     (Inl (runtime_error ''Failed to switch bus speed''),
      opened\<lparr>trace := trace opened @ [(video_set_transmission False, True), (capture_stop, True),
        (video_set_iso_speed 2, True), (video_set_iso_speed 5, False)]\<rparr>) \<and>
   setParameter (failsOn [format7_set_roi 0 0 640 480])
       [BusSpeed 2, Resolution 0 0 640 480, FrameRate 3] opened =
     (Inl (runtime_error ''Failed to set format 7 configurations''),
      opened\<lparr>trace := trace opened @ [(video_set_transmission False, True), (capture_stop, True),
        (video_set_iso_speed 2, True), (format7_set_roi 0 0 640 480, False),
        (camera_free, True)]\<rparr>) \<and>
   setParameter (failsOn [video_set_framerate 3]) [BusSpeed 2, FrameRate 3, BusSpeed 5] opened =
     (Inl (runtime_error ''Failed to update frame rate''),
      opened\<lparr>trace := trace opened @ [(video_set_transmission False, True), (capture_stop, True),
        (video_set_iso_speed 2, True), (video_set_framerate 3, False), (camera_free, True)]\<rparr>)"
proof -
  let ?s1 = "opened\<lparr>trace := trace opened @
      [(video_set_transmission False, True), (capture_stop, True),
       (video_set_iso_speed 2, True)]\<rparr>"
  have a: "setParameter (failsOn [video_set_iso_speed 5]) [BusSpeed 2] opened = (Inr (), ?s1)"
    by (simp add: setParameter_BusSpeed_applied)
  have b: "setParameter (failsOn [format7_set_roi 0 0 640 480]) [BusSpeed 2] opened = (Inr (), ?s1)"
    by (simp add: setParameter_BusSpeed_applied)
  have c: "setParameter (failsOn [video_set_framerate 3]) [BusSpeed 2] opened = (Inr (), ?s1)"
    by (simp add: setParameter_BusSpeed_applied)
  show ?thesis
    using setParameter_failure [where drv = "failsOn [video_set_iso_speed 5]"
        and pre = "[BusSpeed 2]" and s = opened and ?s1.0 = ?s1 and v = 5
        and post = "[FrameRate 3]"] a
      setParameter_failure [where drv = "failsOn [format7_set_roi 0 0 640 480]"
        and pre = "[BusSpeed 2]" and s = opened and ?s1.0 = ?s1
        and l = 0 and tp = 0 and w = 640 and h = 480 and post = "[FrameRate 3]"] b
      setParameter_failure [where drv = "failsOn [video_set_framerate 3]"
        and pre = "[BusSpeed 2]" and s = opened and ?s1.0 = ?s1 and v = 3
        and post = "[BusSpeed 5]"] c
    by (simp add: failsOn_def freeCamera_eq)
qed

subsection \<open>Error paths that free the camera\<close>













end
